theory Spec2Isabelle
  imports Main "HOL-Library.Sublist"
begin

section \<open>Strings of src/index.js\<close>

text \<open>
  A JavaScript string is a sequence of code units. The model uses \<^typ>\<open>string\<close>, whose
  characters are the code units below 256 (ISO-8859-1); on these, \<open>toLowerCase\<close>, the
  regular-expression classes \<open>\s\<close> and \<open>.\<close> and \<open>trim\<close> act one unit at a time, as written
  below. The bullet U+2022 of the class \<open>[\<bullet>\<cdot>-]\<close> lies outside this range, so the class
  is the middle dot U+00B7 and the hyphen here.
\<close>

definition isWhiteSpace :: "char \<Rightarrow> bool" where
  \<comment> \<open>\<open>\s\<close>: TAB, LF, VT, FF, CR, SP, NBSP\<close>
  "isWhiteSpace c \<longleftrightarrow> (of_char c :: nat) \<in> {9, 10, 11, 12, 13, 32, 160}"

definition isLineTerminator :: "char \<Rightarrow> bool" where
  \<comment> \<open>the units that \<open>.\<close> refuses: LF, CR\<close>
  "isLineTerminator c \<longleftrightarrow> (of_char c :: nat) \<in> {10, 13}"

definition toLowerCaseChar :: "char \<Rightarrow> char" where
  \<comment> \<open>A-Z, and U+00C0..U+00DE without the multiplication sign U+00D7\<close>
  "toLowerCaseChar c =
     (let n = (of_char c :: nat)
      in if (65 \<le> n \<and> n \<le> 90) \<or> (192 \<le> n \<and> n \<le> 222 \<and> n \<noteq> 215)
         then char_of (n + 32) else c)"

definition toLowerCase :: "string \<Rightarrow> string" where
  "toLowerCase s = map toLowerCaseChar s"

definition canonicalize :: "char \<Rightarrow> char" where
  \<comment> \<open>case folding of the \<open>i\<close> flag, as far as a pattern of ASCII characters can see it:
      a-z go to A-Z; no unit from 128 on folds to an ASCII character\<close>
  "canonicalize c =
     (let n = (of_char c :: nat)
      in if 97 \<le> n \<and> n \<le> 122 then char_of (n - 32) else c)"

fun includes' :: "string \<Rightarrow> string \<Rightarrow> bool" where
  \<comment> \<open>\<open>s.includes(t)\<close>\<close>
  "includes' [] t = (t = [])"
| "includes' (c # cs) t = (prefix t (c # cs) \<or> includes' cs t)"

definition trim :: "string \<Rightarrow> string" where
  "trim s = rev (dropWhile isWhiteSpace (rev (dropWhile isWhiteSpace s)))"

fun split_nl :: "string \<Rightarrow> string list" where
  \<comment> \<open>\<open>s.split('\n')\<close>\<close>
  "split_nl [] = [[]]"
| "split_nl (c # cs) =
     (if c = CHR 0x0A then [] # split_nl cs
      else (case split_nl cs of [] \<Rightarrow> [[c]] | l # ls \<Rightarrow> (c # l) # ls))"

fun replaceWhiteSpaceRuns :: "bool \<Rightarrow> string \<Rightarrow> string" where
  \<comment> \<open>\<open>.replace(/\s+/g, '-')\<close>; the flag says that the run being read has its hyphen already\<close>
  "replaceWhiteSpaceRuns inRun [] = []"
| "replaceWhiteSpaceRuns inRun (c # cs) =
     (if isWhiteSpace c
      then (if inRun then replaceWhiteSpaceRuns True cs
            else CHR ''-'' # replaceWhiteSpaceRuns True cs)
      else c # replaceWhiteSpaceRuns False cs)"

definition isIdChar :: "char \<Rightarrow> bool" where
  \<comment> \<open>the class \<open>[a-z0-9-]\<close>\<close>
  "isIdChar c \<longleftrightarrow>
     (let n = (of_char c :: nat)
      in (97 \<le> n \<and> n \<le> 122) \<or> (48 \<le> n \<and> n \<le> 57) \<or> n = 45)"

definition replaceNonIdChars :: "string \<Rightarrow> string" where
  \<comment> \<open>\<open>.replace(/[^a-z0-9-]/g, '-')\<close>\<close>
  "replaceNonIdChars s = map (\<lambda>c. if isIdChar c then c else CHR ''-'') s"

fun collapseHyphens :: "bool \<Rightarrow> string \<Rightarrow> string" where
  \<comment> \<open>\<open>.replace(/-+/g, '-')\<close>\<close>
  "collapseHyphens inRun [] = []"
| "collapseHyphens inRun (c # cs) =
     (if c = CHR ''-''
      then (if inRun then collapseHyphens True cs else CHR ''-'' # collapseHyphens True cs)
      else c # collapseHyphens False cs)"

section \<open>The three patterns of parseREADMEContent\<close>

text \<open>
  \<open>/## Reference Servers[\s\S]*?(?=##|$)/i\<close> and its Community twin. The match starts at
  the leftmost place where the heading stands, whatever the case of its letters; the lazy
  \<open>[\s\S]*?\<close> then takes one unit at a time until \<open>##\<close> or the end of the text follows.
\<close>

fun headingAt :: "string \<Rightarrow> string \<Rightarrow> bool" where
  "headingAt [] s = True"
| "headingAt (h # hs) [] = False"
| "headingAt (h # hs) (c # cs) = (canonicalize c = canonicalize h \<and> headingAt hs cs)"

fun untilHashes :: "string \<Rightarrow> string" where
  "untilHashes [] = []"
| "untilHashes [c] = [c]"
| "untilHashes (c # d # cs) =
     (if c = CHR ''#'' \<and> d = CHR ''#'' then [] else c # untilHashes (d # cs))"

fun sectionMatch :: "string \<Rightarrow> string \<Rightarrow> string option" where
  "sectionMatch heading [] = None"
| "sectionMatch heading (c # cs) =
     (if headingAt heading (c # cs)
      then Some (take (length heading) (c # cs) @ untilHashes (drop (length heading) (c # cs)))
      else sectionMatch heading cs)"

text \<open>
  The pieces shared by the line pattern \<open>/^[\<bullet>\<cdot>-]\s*\*\*([^*]+)\*\*\s*-\s*(.+)/\<close> and the
  fallback pattern \<open>/\*\*([^*]+)\*\*\s*-\s*([^\<bullet>\<cdot>\n]+)/g\<close>. A greedy run that is followed by
  a character outside its class can only be the longest run, so \<open>\s*\<close> before \<open>\*\*\<close> and
  before \<open>-\<close>, and \<open>[^*]+\<close> before \<open>\*\*\<close>, are \<open>takeWhile\<close> and \<open>dropWhile\<close>. The last \<open>\s*\<close>
  is followed by a group that may itself take white space, so it gives units back when
  the group finds nothing after the longest run.
\<close>

fun asterisks :: "string \<Rightarrow> string option" where
  \<comment> \<open>\<open>\*\*\<close>\<close>
  "asterisks (a # b # r) = (if a = CHR ''*'' \<and> b = CHR ''*'' then Some r else None)"
| "asterisks r = None"

definition boldName :: "string \<Rightarrow> (string \<times> string) option" where
  \<comment> \<open>\<open>\*\*([^*]+)\*\*\<close>: the group and what follows the match\<close>
  "boldName s =
     (case asterisks s of
        None \<Rightarrow> None
      | Some r \<Rightarrow>
          if takeWhile (\<lambda>c. c \<noteq> CHR ''*'') r = [] then None
          else (case asterisks (dropWhile (\<lambda>c. c \<noteq> CHR ''*'') r) of
                  None \<Rightarrow> None
                | Some r' \<Rightarrow> Some (takeWhile (\<lambda>c. c \<noteq> CHR ''*'') r, r')))"

definition hyphen :: "string \<Rightarrow> string option" where
  \<comment> \<open>\<open>\s*-\<close>\<close>
  "hyphen s =
     (case dropWhile isWhiteSpace s of
        [] \<Rightarrow> None
      | c # r \<Rightarrow> if c = CHR ''-'' then Some r else None)"

definition classRun :: "(char \<Rightarrow> bool) \<Rightarrow> string \<Rightarrow> (string \<times> string) option" where
  \<comment> \<open>a greedy group \<open>(C+)\<close> at the end of a pattern\<close>
  "classRun C s = (if takeWhile C s = [] then None else Some (takeWhile C s, dropWhile C s))"

fun spacesThen :: "(char \<Rightarrow> bool) \<Rightarrow> string \<Rightarrow> (string \<times> string) option" where
  \<comment> \<open>\<open>\s*(C+)\<close>: the longest white space first, one unit less each time the group fails\<close>
  "spacesThen C [] = None"
| "spacesThen C (c # cs) =
     (if isWhiteSpace c
      then (case spacesThen C cs of Some m \<Rightarrow> Some m | None \<Rightarrow> classRun C (c # cs))
      else classRun C (c # cs))"

definition isBullet :: "char \<Rightarrow> bool" where
  "isBullet c \<longleftrightarrow> c = CHR 0xB7 \<or> c = CHR ''-''"

definition lineMatch :: "string \<Rightarrow> (string \<times> string) option" where
  \<comment> \<open>\<open>line.match(...)\<close>: the groups 1 and 2\<close>
  "lineMatch line =
     (case line of
        [] \<Rightarrow> None
      | b # r \<Rightarrow>
          if isBullet b then
            (case boldName (dropWhile isWhiteSpace r) of
               None \<Rightarrow> None
             | Some (n, r1) \<Rightarrow>
                 (case hyphen r1 of
                    None \<Rightarrow> None
                  | Some r2 \<Rightarrow>
                      (case spacesThen (\<lambda>c. \<not> isLineTerminator c) r2 of
                         None \<Rightarrow> None
                       | Some (d, r3) \<Rightarrow> Some (n, d))))
          else None)"

definition isFallbackDescriptionChar :: "char \<Rightarrow> bool" where
  \<comment> \<open>the class \<open>[^\<bullet>\<cdot>\n]\<close>\<close>
  "isFallbackDescriptionChar c \<longleftrightarrow> c \<noteq> CHR 0xB7 \<and> c \<noteq> CHR 0x0A"

definition serverPatternAt :: "string \<Rightarrow> (string \<times> string \<times> nat) option" where
  \<comment> \<open>the fallback pattern at the start of \<open>s\<close>: the groups 1 and 2 and the length of the match\<close>
  "serverPatternAt s =
     (case boldName s of
        None \<Rightarrow> None
      | Some (n, r1) \<Rightarrow>
          (case hyphen r1 of
             None \<Rightarrow> None
           | Some r2 \<Rightarrow>
               (case spacesThen isFallbackDescriptionChar r2 of
                  None \<Rightarrow> None
                | Some (d, r3) \<Rightarrow> Some (n, d, length s - length r3))))"

fun serverPatternExec :: "nat \<Rightarrow> string \<Rightarrow> (string \<times> string) list" where
  \<comment> \<open>the successive results of \<open>serverPattern.exec(content)\<close>; the number is how far
      \<open>lastIndex\<close> lies ahead of the position being read\<close>
  "serverPatternExec ahead [] = []"
| "serverPatternExec (Suc ahead) (c # cs) = serverPatternExec ahead cs"
| "serverPatternExec 0 (c # cs) =
     (case serverPatternAt (c # cs) of
        None \<Rightarrow> serverPatternExec 0 cs
      | Some (n, d, len) \<Rightarrow> (n, d) # serverPatternExec (len - 1) cs)"

section \<open>Server entries\<close>

record repository =
  url :: string
  type :: string

record server =
  id' :: string
  name :: string
  description :: string
  category :: string
  author :: string
  repository :: repository
  version :: string
  tags :: "string list"
  downloads :: nat
  stars :: nat

text \<open>
  \<open>Math.random\<close> is an input of the model: \<open>random k n\<close> is \<open>Math.floor(Math.random() * n)\<close>
  at the call number \<open>k\<close> of one parse. Every entry pushed draws twice, so the entry pushed
  onto \<open>servers\<close> draws at \<open>2 * length servers\<close> and the next number.
\<close>

type_synonym random = "nat \<Rightarrow> nat \<Rightarrow> nat"

definition referenceEntry :: "random \<Rightarrow> nat \<Rightarrow> string \<Rightarrow> string \<Rightarrow> server" where
  "referenceEntry random k m1 m2 =
     \<lparr> id' = ''mcp-'' @ replaceWhiteSpaceRuns False (toLowerCase m1),
       name = ''mcp-'' @ replaceWhiteSpaceRuns False (toLowerCase m1),
       description = m2,
       category = ''official'',
       author = ''Anthropic'',
       repository = \<lparr> url = ''https://github.com/modelcontextprotocol/servers'',
                      type = ''github'' \<rparr>,
       version = ''1.0.0'',
       tags = [''official'', ''reference''],
       downloads = random (2 * k) 10000 + 1000,
       stars = random (2 * k + 1) 500 + 50 \<rparr>"

definition communityEntry :: "random \<Rightarrow> nat \<Rightarrow> string \<Rightarrow> string \<Rightarrow> server" where
  "communityEntry random k m1 m2 =
     \<lparr> id' = replaceWhiteSpaceRuns False (toLowerCase m1),
       name = m1,
       description = m2,
       category = ''community'',
       author = ''Community'',
       repository = \<lparr> url = ''https://github.com/community/'' @ m1, type = ''github'' \<rparr>,
       version = ''0.1.0'',
       tags = [''community''],
       downloads = random (2 * k) 5000 + 100,
       stars = random (2 * k + 1) 200 + 10 \<rparr>"

definition fallbackEntry :: "random \<Rightarrow> nat \<Rightarrow> string \<Rightarrow> string \<Rightarrow> string \<Rightarrow> server" where
  "fallbackEntry random k serverId nm desc =
     \<lparr> id' = serverId,
       name = nm,
       description = trim desc,
       category = (if includes' nm ''MCP'' \<or> includes' nm ''server''
                   then ''official'' else ''community''),
       author = ''Community'',
       repository = \<lparr> url = ''https://github.com/community/'' @ serverId, type = ''github'' \<rparr>,
       version = ''1.0.0'',
       tags = [if includes' nm ''MCP'' then ''official'' else ''community''],
       downloads = random (2 * k) 3000 + 200,
       stars = random (2 * k + 1) 150 + 20 \<rparr>"

section \<open>parseREADMEContent\<close>

fun referenceLines :: "random \<Rightarrow> string list \<Rightarrow> server list \<Rightarrow> server list" where
  \<comment> \<open>the \<open>forEach\<close> of lines 78 to 94\<close>
  "referenceLines random [] servers = servers"
| "referenceLines random (line # lines) servers =
     (case lineMatch line of
        None \<Rightarrow> referenceLines random lines servers
      | Some (m1, m2) \<Rightarrow>
          referenceLines random lines
            (servers @ [referenceEntry random (length servers) m1 m2]))"

fun communityLines :: "random \<Rightarrow> string list \<Rightarrow> server list \<Rightarrow> server list" where
  \<comment> \<open>the \<open>forEach\<close> of lines 101 to 117\<close>
  "communityLines random [] servers = servers"
| "communityLines random (line # lines) servers =
     (case lineMatch line of
        None \<Rightarrow> communityLines random lines servers
      | Some (m1, m2) \<Rightarrow>
          communityLines random lines
            (servers @ [communityEntry random (length servers) m1 m2]))"

definition serverIdOf :: "string \<Rightarrow> string" where
  \<comment> \<open>line 126\<close>
  "serverIdOf nm = collapseHyphens False (replaceNonIdChars (toLowerCase nm))"

fun fallbackLoop :: "random \<Rightarrow> (string \<times> string) list \<Rightarrow> server list \<Rightarrow> server list" where
  \<comment> \<open>the \<open>while\<close> of lines 123 to 144, over the matches that \<open>exec\<close> yields\<close>
  "fallbackLoop random [] servers = servers"
| "fallbackLoop random ((nm, desc) # matches) servers =
     (if nm \<noteq> [] \<and> desc \<noteq> [] \<and> length nm < 50
      then (if \<not> list_ex (\<lambda>s. id' s = serverIdOf nm) servers
            then fallbackLoop random matches
                   (servers @ [fallbackEntry random (length servers) (serverIdOf nm) nm desc])
            else fallbackLoop random matches servers)
      else fallbackLoop random matches servers)"

definition referencePass :: "random \<Rightarrow> string \<Rightarrow> server list \<Rightarrow> server list" where
  \<comment> \<open>lines 75 to 95\<close>
  "referencePass random content servers =
     (case sectionMatch ''## Reference Servers'' content of
        None \<Rightarrow> servers
      | Some referenceSection \<Rightarrow> referenceLines random (split_nl referenceSection) servers)"

definition communityPass :: "random \<Rightarrow> string \<Rightarrow> server list \<Rightarrow> server list" where
  \<comment> \<open>lines 98 to 118\<close>
  "communityPass random content servers =
     (case sectionMatch ''## Community Servers'' content of
        None \<Rightarrow> servers
      | Some communitySection \<Rightarrow> communityLines random (split_nl communitySection) servers)"

definition fallbackPass :: "random \<Rightarrow> string \<Rightarrow> server list \<Rightarrow> server list" where
  \<comment> \<open>lines 121 to 144\<close>
  "fallbackPass random content servers =
     fallbackLoop random (serverPatternExec 0 content) servers"

definition parseREADMEContent :: "random \<Rightarrow> string \<Rightarrow> server list" where
  "parseREADMEContent random content =
     take 50 (fallbackPass random content
               (communityPass random content (referencePass random content [])))"

section \<open>The cache and getServersData\<close>

datatype error = Error string

text \<open>
  What the request of \<open>fetchRealMCPServers\<close> meets is an input of the model: a failure
  with its message (the request rejected, a status that is not ok, a body that does not
  decode), or the decoded text of the README.
\<close>

datatype upstream = Failure string | Readme string

definition fetchRealMCPServers :: "random \<Rightarrow> upstream \<Rightarrow> error + server list" where
  "fetchRealMCPServers random up =
     (case up of
        Failure message \<Rightarrow> Inl (Error message)
      | Readme readmeContent \<Rightarrow> Inr (parseREADMEContent random readmeContent))"

text \<open>
  The two module variables, and a counter of the calls of \<open>fetchRealMCPServers\<close> that the
  source does not have: it records whether an operation went to the network.
\<close>

record cache =
  cachedServers :: "server list option"
  lastFetchTime :: int
  fetches :: nat

definition initialCache :: cache where
  "initialCache = \<lparr> cachedServers = None, lastFetchTime = 0, fetches = 0 \<rparr>"

definition CACHE_DURATION :: int where
  "CACHE_DURATION = 5 * 60 * 1000"

definition unableToFetch :: string where
  "unableToFetch = ''Unable to fetch MCP servers from GitHub. Please check your internet connection and GitHub API availability.''"

definition getServersData ::
  "int \<Rightarrow> random \<Rightarrow> upstream \<Rightarrow> cache \<Rightarrow> (error + server list) \<times> cache" where
  \<comment> \<open>\<open>now\<close> is the value of \<open>Date.now()\<close> on entry\<close>
  "getServersData now random up st =
     (case (if now - lastFetchTime st < CACHE_DURATION then cachedServers st else None) of
        Some cached \<Rightarrow> (Inr cached, st)
      | None \<Rightarrow>
          (case fetchRealMCPServers random up of
             Inl e \<Rightarrow> (Inl e, st\<lparr>fetches := fetches st + 1\<rparr>)
           | Inr servers \<Rightarrow>
               if length servers > 0
               then (Inr servers,
                     st\<lparr>cachedServers := Some servers, lastFetchTime := now,
                        fetches := fetches st + 1\<rparr>)
               else (Inl (Error unableToFetch), st\<lparr>fetches := fetches st + 1\<rparr>)))"

section \<open>The tool handlers\<close>

text \<open>
  The arguments object of a call; a property that is absent is \<open>None\<close>. A response carries
  what its text is rendered from, and \<open>isError\<close>, which is \<open>False\<close> where the source leaves
  it out.
\<close>

record arguments =
  query :: "string option"
  categoryArg :: "string option"
  limit :: "int option"
  serverId :: "string option"

definition truthy :: "string option \<Rightarrow> bool" where
  \<comment> \<open>\<open>if (x)\<close> on a string or \<open>undefined\<close>\<close>
  "truthy x = (case x of None \<Rightarrow> False | Some s \<Rightarrow> s \<noteq> [])"

definition given :: "string option \<Rightarrow> string option" where
  \<comment> \<open>an argument behind its test \<open>if (x)\<close>: the empty string counts as absent\<close>
  "given x = (if truthy x then x else None)"

definition slice0 :: "int \<Rightarrow> 'a list \<Rightarrow> 'a list" where
  \<comment> \<open>\<open>xs.slice(0, end)\<close>: a negative end counts from the end of the array\<close>
  "slice0 end xs =
     (if end < 0 then take (nat (int (length xs) + end)) xs else take (nat end) xs)"

datatype described = Text string | Inherited

record categoryInfo =
  count :: nat
  described :: described

datatype content =
    SearchResults "string option" "string option" "server list"
  | ServerDetails server
  | ServerNotFound string
  | Categories "(string \<times> categoryInfo) list"
  | DataRefreshed nat
  | ErrorText string

record response =
  content :: content
  isError :: bool

definition caught :: "error \<Rightarrow> response" where
  \<comment> \<open>the \<open>catch\<close> of lines 352 to 357\<close>
  "caught e = (case e of Error message \<Rightarrow> \<lparr> content = ErrorText message, isError = True \<rparr>)"

definition matchesQuery :: "string \<Rightarrow> server \<Rightarrow> bool" where
  \<comment> \<open>the predicate of lines 236 to 240\<close>
  "matchesQuery searchTerm s \<longleftrightarrow>
     includes' (toLowerCase (name s)) searchTerm \<or>
     includes' (toLowerCase (description s)) searchTerm \<or>
     list_ex (\<lambda>tag. includes' (toLowerCase tag) searchTerm) (tags s)"

definition searchServers :: "arguments \<Rightarrow> server list \<Rightarrow> server list" where
  \<comment> \<open>lines 228 and 231 to 251\<close>
  "searchServers args servers =
     (let lim = (case limit args of None \<Rightarrow> 20 | Some l \<Rightarrow> l);
          filtered1 = (case given (query args) of
                         None \<Rightarrow> servers
                       | Some q \<Rightarrow> filter (matchesQuery (toLowerCase q)) servers);
          filtered2 = (case given (categoryArg args) of
                         None \<Rightarrow> filtered1
                       | Some c \<Rightarrow> filter (\<lambda>s. toLowerCase (category s) = toLowerCase c)
                                    filtered1)
      in slice0 lim filtered2)"

definition registry_search_servers ::
  "int \<Rightarrow> random \<Rightarrow> upstream \<Rightarrow> arguments \<Rightarrow> cache \<Rightarrow> response \<times> cache" where
  "registry_search_servers now random up args st =
     (case getServersData now random up st of
        (Inl e, st') \<Rightarrow> (caught e, st')
      | (Inr servers, st') \<Rightarrow>
          (\<lparr> content = SearchResults (given (query args)) (given (categoryArg args))
                         (searchServers args servers),
             isError = False \<rparr>, st'))"

definition findServer :: "string \<Rightarrow> server list \<Rightarrow> server option" where
  \<comment> \<open>lines 278 to 283\<close>
  "findServer sid servers =
     List.find (\<lambda>s. id' s = sid \<or> name s = sid \<or>
                     id' s = ''mcp-'' @ sid \<or> name s = ''mcp-'' @ sid) servers"

definition registry_get_server_details ::
  "int \<Rightarrow> random \<Rightarrow> upstream \<Rightarrow> arguments \<Rightarrow> cache \<Rightarrow> response \<times> cache" where
  "registry_get_server_details now random up args st =
     (case given (serverId args) of
        None \<Rightarrow> (caught (Error ''serverId is required''), st)
      | Some sid \<Rightarrow>
          (case getServersData now random up st of
             (Inl e, st') \<Rightarrow> (caught e, st')
           | (Inr servers, st') \<Rightarrow>
               (case findServer sid servers of
                  None \<Rightarrow> (\<lparr> content = ServerNotFound sid, isError = False \<rparr>, st')
                | Some s \<Rightarrow> (\<lparr> content = ServerDetails s, isError = False \<rparr>, st'))))"

text \<open>
  \<open>categories\<close> and \<open>descriptions\<close> are plain objects, so a key that names a member of
  \<open>Object.prototype\<close> finds that member: \<open>categories[cat]\<close> is then truthy though
  \<open>categories\<close> has no such row, and \<open>count++\<close> lands on the inherited member. The rows are
  kept in the order of their insertion, which is the order of \<open>Object.entries\<close> for keys
  that are not array indices.
\<close>

definition objectPrototypeKeys :: "string list" where
  "objectPrototypeKeys =
     [''constructor'', ''__proto__'', ''hasOwnProperty'', ''isPrototypeOf'',
      ''propertyIsEnumerable'', ''toLocaleString'', ''toString'', ''valueOf'',
      ''__defineGetter__'', ''__defineSetter__'', ''__lookupGetter__'', ''__lookupSetter__'']"

definition descriptions :: "(string \<times> string) list" where
  "descriptions =
     [(''official'', ''Official MCP servers maintained by Anthropic''),
      (''community'', ''Community-contributed MCP servers''),
      (''filesystem'', ''File and directory operations''),
      (''development'', ''Development tools and version control''),
      (''memory'', ''Memory and context management systems''),
      (''database'', ''Database connectivity and operations''),
      (''web'', ''Web scraping and HTTP operations''),
      (''ai'', ''AI model integrations and tools'')]"

definition getCategoryDescription :: "string \<Rightarrow> described" where
  "getCategoryDescription cat =
     (case map_of descriptions cat of
        Some d \<Rightarrow> Text d
      | None \<Rightarrow> if cat \<in> set objectPrototypeKeys then Inherited
                else Text ''Various MCP server functionality'')"

fun increment :: "string \<Rightarrow> (string \<times> categoryInfo) list \<Rightarrow> (string \<times> categoryInfo) list" where
  \<comment> \<open>\<open>categories[cat].count++\<close> on a row that exists\<close>
  "increment cat [] = []"
| "increment cat ((k, info) # rows) =
     (if k = cat then (k, info\<lparr>count := count info + 1\<rparr>) # rows
      else (k, info) # increment cat rows)"

fun countCategories ::
  "server list \<Rightarrow> (string \<times> categoryInfo) list \<Rightarrow> (string \<times> categoryInfo) list" where
  \<comment> \<open>the \<open>forEach\<close> of lines 317 to 323\<close>
  "countCategories [] categories = categories"
| "countCategories (s # servers) categories =
     (let cat = (if category s = [] then ''other'' else category s)
      in if cat \<in> set objectPrototypeKeys then countCategories servers categories
         else if map_of categories cat = None
         then countCategories servers
                (increment cat
                  (categories @ [(cat, \<lparr> count = 0, described = getCategoryDescription cat \<rparr>)]))
         else countCategories servers (increment cat categories))"

definition registry_list_categories ::
  "int \<Rightarrow> random \<Rightarrow> upstream \<Rightarrow> cache \<Rightarrow> response \<times> cache" where
  "registry_list_categories now random up st =
     (case getServersData now random up st of
        (Inl e, st') \<Rightarrow> (caught e, st')
      | (Inr servers, st') \<Rightarrow>
          (\<lparr> content = Categories (countCategories servers []), isError = False \<rparr>, st'))"

definition registry_refresh_data ::
  "int \<Rightarrow> random \<Rightarrow> upstream \<Rightarrow> cache \<Rightarrow> response \<times> cache" where
  "registry_refresh_data now random up st =
     (case getServersData now random up (st\<lparr>cachedServers := None, lastFetchTime := 0\<rparr>) of
        (Inl e, st') \<Rightarrow> (caught e, st')
      | (Inr servers, st') \<Rightarrow>
          (\<lparr> content = DataRefreshed (length servers), isError = False \<rparr>, st'))"

definition callTool ::
  "int \<Rightarrow> random \<Rightarrow> upstream \<Rightarrow> string \<Rightarrow> arguments \<Rightarrow> cache \<Rightarrow> response \<times> cache" where
  \<comment> \<open>the \<open>switch\<close> of lines 226 to 351\<close>
  "callTool now random up toolName args st =
     (if toolName = ''registry_search_servers'' then registry_search_servers now random up args st
      else if toolName = ''registry_get_server_details''
        then registry_get_server_details now random up args st
      else if toolName = ''registry_list_categories'' then registry_list_categories now random up st
      else if toolName = ''registry_refresh_data'' then registry_refresh_data now random up st
      else (caught (Error (''Unknown tool: '' @ toolName)), st))"

section \<open>Notions of the specification\<close>




text \<open>The states of the cache that a run of the server can reach.\<close>

inductive reachable :: "cache \<Rightarrow> bool" where
  start: "reachable initialCache"
| call: "reachable st \<Longrightarrow> reachable (snd (callTool now random up toolName args st))"

text \<open>The fetch or the extraction fails: the request fails, or no entry is extracted.\<close>

definition fetchFails :: "random \<Rightarrow> upstream \<Rightarrow> bool" where
  "fetchFails random up =
     (case fetchRealMCPServers random up of Inl e \<Rightarrow> True | Inr servers \<Rightarrow> servers = [])"

text \<open>
  Search as the specification words it: the entries whose name, description or some tag
  contains the query, whatever the case, and whose category is the given one, whatever
  the case, in the order of the snapshot, the first \<open>n\<close> of them.
\<close>

definition containsIgnoringCase :: "string \<Rightarrow> string \<Rightarrow> bool" where
  "containsIgnoringCase s q \<longleftrightarrow> sublist (toLowerCase q) (toLowerCase s)"

definition searchSpec ::
  "string option \<Rightarrow> string option \<Rightarrow> nat \<Rightarrow> server list \<Rightarrow> server list" where
  "searchSpec q c n snapshot =
     take n (filter (\<lambda>s.
       (case q of
          None \<Rightarrow> True
        | Some q' \<Rightarrow> containsIgnoringCase (name s) q' \<or>
                     containsIgnoringCase (description s) q' \<or>
                     list_ex (\<lambda>tag. containsIgnoringCase tag q') (tags s)) \<and>
       (case c of
          None \<Rightarrow> True
        | Some c' \<Rightarrow> toLowerCase (category s) = toLowerCase c')) snapshot)"

definition countSum :: "(string \<times> categoryInfo) list \<Rightarrow> nat" where
  \<comment> \<open>the sum of the counts of the rows\<close>
  "countSum rows = sum_list (map (count \<circ> snd) rows)"

definition plain :: "server \<Rightarrow> bool" where
  \<comment> \<open>a category that is a key of its own in \<open>categories\<close>\<close>
  "plain s \<longleftrightarrow> category s \<noteq> [] \<and> category s \<notin> set objectPrototypeKeys"


section \<open>Inputs used in the examples\<close>

definition scenarioReadme :: string where
  "scenarioReadme = ''## Reference Servers\<newline>- **Filesystem** - Secure file ops\<newline>## Community Servers\<newline>- **Slack Bot** - Chat integration''"

definition repeatedReadme :: string where
  "repeatedReadme = ''## Community Servers\<newline>- **A** - x\<newline>- **A** - y''"


definition noDraw :: random where
  "noDraw k n = 0"

definition filesystemReference :: "random \<Rightarrow> server" where
  "filesystemReference random =
     \<lparr> id' = ''mcp-filesystem'', name = ''mcp-filesystem'', description = ''Secure file ops'',
       category = ''official'', author = ''Anthropic'',
       repository = \<lparr> url = ''https://github.com/modelcontextprotocol/servers'',
                      type = ''github'' \<rparr>,
       version = ''1.0.0'', tags = [''official'', ''reference''],
       downloads = random 0 10000 + 1000, stars = random 1 500 + 50 \<rparr>"

definition slackBot :: "random \<Rightarrow> server" where
  "slackBot random =
     \<lparr> id' = ''slack-bot'', name = ''Slack Bot'', description = ''Chat integration'',
       category = ''community'', author = ''Community'',
       repository = \<lparr> url = ''https://github.com/community/Slack Bot'', type = ''github'' \<rparr>,
       version = ''0.1.0'', tags = [''community''],
       downloads = random 2 5000 + 100, stars = random 3 200 + 10 \<rparr>"

definition filesystemFallback :: "random \<Rightarrow> server" where
  "filesystemFallback random =
     \<lparr> id' = ''filesystem'', name = ''Filesystem'', description = ''Secure file ops'',
       category = ''community'', author = ''Community'',
       repository = \<lparr> url = ''https://github.com/community/filesystem'', type = ''github'' \<rparr>,
       version = ''1.0.0'', tags = [''community''],
       downloads = random 4 3000 + 200, stars = random 5 150 + 20 \<rparr>"

definition scenarioSnapshot :: "random \<Rightarrow> server list" where
  "scenarioSnapshot random =
     [filesystemReference random, slackBot random, filesystemFallback random]"

definition staleCache :: cache where
  "staleCache =
     \<lparr> cachedServers = Some (scenarioSnapshot noDraw), lastFetchTime = 1000, fetches = 1 \<rparr>"

definition unavailable :: upstream where
  "unavailable = Failure ''GitHub API error: 503 Service Unavailable''"

definition noArguments :: arguments where
  "noArguments = \<lparr> query = None, categoryArg = None, limit = None, serverId = None \<rparr>"

section \<open>Extraction on the example documents\<close>

lemma scenario_snapshot: "parseREADMEContent random scenarioReadme = scenarioSnapshot random"
  unfolding scenarioReadme_def scenarioSnapshot_def filesystemReference_def slackBot_def
    filesystemFallback_def
  by code_simp


text \<open>
  C1. The document of the end-to-end scenario yields three entries, not two. The
  reference pass stores Filesystem under the id \<open>mcp-filesystem\<close>; the fallback pass meets
  \<open>**Filesystem** - Secure file ops\<close> again, derives the id \<open>filesystem\<close>, finds no entry
  with that id and pushes a third entry, of category \<open>community\<close>. Slack Bot is found
  again under the id \<open>slack-bot\<close> that the community pass gave it, and is dropped.
\<close>

theorem scenario_extracts_three_entries:
  "map (\<lambda>s. (id' s, name s, category s)) (parseREADMEContent random scenarioReadme) =
     [(''mcp-filesystem'', ''mcp-filesystem'', ''official''),
      (''slack-bot'', ''Slack Bot'', ''community''),
      (''filesystem'', ''Filesystem'', ''community'')]"
  by (simp add: scenario_snapshot scenarioSnapshot_def filesystemReference_def slackBot_def
      filesystemFallback_def)

text \<open>
  C2. Two bullets of one section whose names give the same id are both kept: the
  reference and community passes push without looking at the ids collected so far, and
  only the fallback pass compares ids. The result holds the id \<open>a\<close> twice.
\<close>

theorem repeated_bullet_kept_twice:
  "map (\<lambda>s. (id' s, description s)) (parseREADMEContent random repeatedReadme) =
     [(''a'', ''x''), (''a'', ''y'')]"
  unfolding repeatedReadme_def by code_simp

section \<open>The freshness window\<close>

lemma getServersData_hit:
  "cachedServers st = Some snap \<Longrightarrow> now - lastFetchTime st < CACHE_DURATION \<Longrightarrow>
   getServersData now random up st = (Inr snap, st)"
  by (simp add: getServersData_def)

lemma getServersData_miss_fetches:
  "cachedServers st = None \<or> \<not> now - lastFetchTime st < CACHE_DURATION \<Longrightarrow>
   fetches (snd (getServersData now random up st)) = fetches st + 1"
  by (auto simp: getServersData_def split: sum.splits option.splits)

lemma getServersData_miss_success:
  "cachedServers st = None \<or> \<not> now - lastFetchTime st < CACHE_DURATION \<Longrightarrow>
   fst (getServersData now random up st) = Inr snap \<Longrightarrow>
   snd (getServersData now random up st) =
     st\<lparr>cachedServers := Some snap, lastFetchTime := now, fetches := fetches st + 1\<rparr>"
  by (auto simp: getServersData_def split: sum.splits option.splits if_splits)

lemma refresh_state:
  "snd (registry_refresh_data now random up st) =
   snd (getServersData now random up (st\<lparr>cachedServers := None, lastFetchTime := 0\<rparr>))"
  by (simp add: registry_refresh_data_def split: prod.splits sum.splits)

lemma scenario_first_fetch:
  "getServersData 1000 noDraw (Readme scenarioReadme) initialCache = (Inr (scenarioSnapshot noDraw), staleCache)"
  by (simp add: getServersData_def fetchRealMCPServers_def initialCache_def scenario_snapshot
      scenarioSnapshot_def staleCache_def)

text \<open>
  C5. A snapshot younger than five minutes is returned as it is and the state, the count
  of fetches included, does not change. After a call that missed the cache and fetched
  with success at \<open>now\<close>, a second call at \<open>later\<close> with \<open>later - now\<close> below five minutes
  returns the same snapshot without a fetch, so the two calls fetch once. A refresh
  fetches once, whatever the state.
\<close>

theorem fresh_cache_is_reused:
  "(cachedServers st = Some snap \<and> now - lastFetchTime st < CACHE_DURATION \<longrightarrow>
      getServersData now random up st = (Inr snap, st)) \<and>
   ((cachedServers st = None \<or> \<not> now - lastFetchTime st < CACHE_DURATION) \<and>
    fst (getServersData now random up st) = Inr snap \<and>
    later - now < CACHE_DURATION \<longrightarrow>
      getServersData later random' up' (snd (getServersData now random up st)) =
        (Inr snap, snd (getServersData now random up st)) \<and>
      fetches (snd (getServersData later random' up' (snd (getServersData now random up st)))) =
        fetches st + 1) \<and>
   fetches (snd (registry_refresh_data now random up st)) = fetches st + 1"
proof (intro conjI impI)
  assume "cachedServers st = Some snap \<and> now - lastFetchTime st < CACHE_DURATION"
  then show "getServersData now random up st = (Inr snap, st)"
    by (simp add: getServersData_hit)
next
  assume a: "(cachedServers st = None \<or> \<not> now - lastFetchTime st < CACHE_DURATION) \<and>
    fst (getServersData now random up st) = Inr snap \<and> later - now < CACHE_DURATION"
  let ?st1 = "snd (getServersData now random up st)"
  from a have st1: "?st1 = st\<lparr>cachedServers := Some snap, lastFetchTime := now,
      fetches := fetches st + 1\<rparr>"
    by (simp add: getServersData_miss_success)
  with a show hit: "getServersData later random' up' ?st1 = (Inr snap, ?st1)"
    by (simp add: getServersData_hit)
  from hit st1 show "fetches (snd (getServersData later random' up' ?st1)) = fetches st + 1"
    by simp
next
  have "fetches (snd (getServersData now random up
          (st\<lparr>cachedServers := None, lastFetchTime := 0\<rparr>))) = fetches st + 1"
    using getServersData_miss_fetches
      [of "st\<lparr>cachedServers := None, lastFetchTime := 0\<rparr>" now random up]
    by simp
  then show "fetches (snd (registry_refresh_data now random up st)) = fetches st + 1"
    by (simp only: refresh_state)
qed

theorem fresh_cache_is_reused_witness:
  "getServersData 2000 noDraw unavailable staleCache = (Inr (scenarioSnapshot noDraw), staleCache) \<and>
   getServersData 2000 noDraw unavailable
     (snd (getServersData 1000 noDraw (Readme scenarioReadme) initialCache)) =
     (Inr (scenarioSnapshot noDraw), staleCache) \<and>
   fetches (snd (getServersData 2000 noDraw unavailable
     (snd (getServersData 1000 noDraw (Readme scenarioReadme) initialCache)))) = 1 \<and>
   fetches (snd (registry_refresh_data 2000 noDraw unavailable staleCache)) = 2"
proof -
  have hit: "cachedServers staleCache = Some (scenarioSnapshot noDraw) \<and>
      2000 - lastFetchTime staleCache < CACHE_DURATION"
    by (simp add: staleCache_def CACHE_DURATION_def)
  have "cachedServers initialCache = None" by (simp add: initialCache_def)
  moreover have "fst (getServersData 1000 noDraw (Readme scenarioReadme) initialCache) =
      Inr (scenarioSnapshot noDraw)"
    by (simp add: scenario_first_fetch)
  moreover have "(2000 :: int) - 1000 < CACHE_DURATION" by (simp add: CACHE_DURATION_def)
  ultimately have miss: "(cachedServers initialCache = None \<or>
        \<not> 1000 - lastFetchTime initialCache < CACHE_DURATION) \<and>
      fst (getServersData 1000 noDraw (Readme scenarioReadme) initialCache) =
        Inr (scenarioSnapshot noDraw) \<and>
      (2000 :: int) - 1000 < CACHE_DURATION"
    by blast
  have f: "fetches initialCache + 1 = 1" "fetches staleCache + 1 = 2"
    by (simp_all add: initialCache_def staleCache_def)
  have s: "snd (getServersData 1000 noDraw (Readme scenarioReadme) initialCache) = staleCache"
    by (simp add: scenario_first_fetch)
  from fresh_cache_is_reused
      [where st = staleCache and snap = "scenarioSnapshot noDraw" and now = 2000
        and random = noDraw and up = unavailable] hit
  have 1: "getServersData 2000 noDraw unavailable staleCache =
        (Inr (scenarioSnapshot noDraw), staleCache) \<and>
      fetches (snd (registry_refresh_data 2000 noDraw unavailable staleCache)) =
        fetches staleCache + 1"
    by blast
  from fresh_cache_is_reused
      [where st = initialCache and snap = "scenarioSnapshot noDraw" and now = 1000
        and random = noDraw and up = "Readme scenarioReadme" and later = 2000
        and random' = noDraw and up' = unavailable] miss
  have 2: "getServersData 2000 noDraw unavailable
        (snd (getServersData 1000 noDraw (Readme scenarioReadme) initialCache)) =
        (Inr (scenarioSnapshot noDraw),
         snd (getServersData 1000 noDraw (Readme scenarioReadme) initialCache)) \<and>
      fetches (snd (getServersData 2000 noDraw unavailable
        (snd (getServersData 1000 noDraw (Readme scenarioReadme) initialCache)))) =
        fetches initialCache + 1"
    by blast
  from 1 2 show ?thesis by (simp only: f s)
qed

section \<open>A failed fetch and the cache\<close>

lemma getServersData_failed:
  "fetchFails random up \<Longrightarrow>
   cachedServers (snd (getServersData now random up st)) = cachedServers st \<and>
   lastFetchTime (snd (getServersData now random up st)) = lastFetchTime st"
  by (auto simp: fetchFails_def getServersData_def split: sum.splits option.splits)

lemma handlers_state:
  "snd (registry_search_servers now random up args st) = snd (getServersData now random up st)"
  "snd (registry_list_categories now random up st) = snd (getServersData now random up st)"
  "snd (registry_get_server_details now random up args st) = snd (getServersData now random up st) \<or>
   snd (registry_get_server_details now random up args st) = st"
  by (auto simp: registry_search_servers_def registry_list_categories_def
      registry_get_server_details_def split: prod.splits sum.splits option.splits)

text \<open>
  C3, as the specification states it, fails for RefreshData: the handler sets the snapshot
  to \<open>null\<close> and the timestamp to 0 before it calls \<open>getServersData\<close>, so a refresh whose
  fetch fails leaves an empty cache behind, not the snapshot held before.
\<close>

theorem failed_refresh_clears_cache:
  "fetchFails noDraw unavailable \<and>
   isError (fst (registry_refresh_data 2000 noDraw unavailable staleCache)) \<and>
   cachedServers (snd (registry_refresh_data 2000 noDraw unavailable staleCache)) \<noteq>
     cachedServers staleCache \<and>
   lastFetchTime (snd (registry_refresh_data 2000 noDraw unavailable staleCache)) \<noteq>
     lastFetchTime staleCache"
  by (simp add: fetchFails_def registry_refresh_data_def getServersData_def
      fetchRealMCPServers_def staleCache_def unavailable_def caught_def)

text \<open>
  C3, amended. When the fetch or the extraction fails, \<open>getServersData\<close> leaves the
  snapshot and the timestamp as it found them, and so does every tool call but
  RefreshData; after such a RefreshData the snapshot is \<open>null\<close> and the timestamp is 0.
\<close>

theorem failed_fetch_and_cache:
  assumes "fetchFails random up"
  shows "cachedServers (snd (getServersData now random up st)) = cachedServers st \<and>
         lastFetchTime (snd (getServersData now random up st)) = lastFetchTime st \<and>
         (toolName \<noteq> ''registry_refresh_data'' \<longrightarrow>
            cachedServers (snd (callTool now random up toolName args st)) = cachedServers st \<and>
            lastFetchTime (snd (callTool now random up toolName args st)) = lastFetchTime st) \<and>
         cachedServers (snd (callTool now random up ''registry_refresh_data'' args st)) = None \<and>
         lastFetchTime (snd (callTool now random up ''registry_refresh_data'' args st)) = 0"
proof -
  note g = getServersData_failed [OF assms]
  have refresh: "snd (callTool now random up ''registry_refresh_data'' args st) =
      snd (getServersData now random up (st\<lparr>cachedServers := None, lastFetchTime := 0\<rparr>))"
    by (simp add: callTool_def refresh_state)
  have other: "toolName \<noteq> ''registry_refresh_data'' \<Longrightarrow>
      snd (callTool now random up toolName args st) = snd (getServersData now random up st) \<or>
      snd (callTool now random up toolName args st) = st"
    using handlers_state by (auto simp: callTool_def)
  from g [of now st] g [of now "st\<lparr>cachedServers := None, lastFetchTime := 0\<rparr>"] refresh other
  show ?thesis by auto
qed

theorem failed_fetch_and_cache_witness:
  "fetchFails noDraw unavailable \<and>
   cachedServers (snd (callTool 400000 noDraw unavailable ''registry_list_categories''
     noArguments staleCache)) = Some (scenarioSnapshot noDraw) \<and>
   lastFetchTime (snd (callTool 400000 noDraw unavailable ''registry_list_categories''
     noArguments staleCache)) = 1000 \<and>
   cachedServers (snd (callTool 400000 noDraw unavailable ''registry_refresh_data''
     noArguments staleCache)) = None"
proof -
  have f: "fetchFails noDraw unavailable"
    by (simp add: fetchFails_def fetchRealMCPServers_def unavailable_def)
  have "''registry_list_categories'' \<noteq> ''registry_refresh_data''" by simp
  with failed_fetch_and_cache [OF f, of 400000 staleCache "''registry_list_categories''"
      noArguments] f
  show ?thesis by (simp add: staleCache_def)
qed

section \<open>Empty extractions\<close>













lemma callTool_state:
  "snd (callTool now random up toolName args st) = st \<or>
   snd (callTool now random up toolName args st) = snd (getServersData now random up st) \<or>
   snd (callTool now random up toolName args st) =
     snd (getServersData now random up (st\<lparr>cachedServers := None, lastFetchTime := 0\<rparr>))"
  by (auto simp: callTool_def registry_search_servers_def registry_get_server_details_def
      registry_list_categories_def registry_refresh_data_def
      split: prod.splits sum.splits option.splits)




section \<open>Search\<close>

lemma includes_sublist: "includes' s t = sublist t s"
  by (induction s) (simp_all add: sublist_Cons_right)

lemma matchesQuery_spec:
  "matchesQuery (toLowerCase q) s \<longleftrightarrow>
     containsIgnoringCase (name s) q \<or> containsIgnoringCase (description s) q \<or>
     list_ex (\<lambda>tag. containsIgnoringCase tag q) (tags s)"
  by (simp add: matchesQuery_def containsIgnoringCase_def includes_sublist)

lemma slice0_take: "0 \<le> l \<Longrightarrow> slice0 l xs = take (nat l) xs"
  by (simp add: slice0_def)

text \<open>A negative limit does not give the first entries: it drops entries from the end.\<close>

lemma slice0_negative:
  assumes "l < 0"
  shows "slice0 l xs = take (length xs - nat (- l)) xs"
proof -
  from assms have "nat (int (length xs) + l) = length xs - nat (- l)" by linarith
  with assms show ?thesis by (simp add: slice0_def)
qed

lemma searchServers_spec:
  assumes "case limit args of None \<Rightarrow> True | Some l \<Rightarrow> 0 \<le> l"
  shows "searchServers args snapshot =
           searchSpec (given (query args)) (given (categoryArg args))
             (case limit args of None \<Rightarrow> 20 | Some l \<Rightarrow> nat l) snapshot"
proof -
  have lim: "slice0 (case limit args of None \<Rightarrow> 20 | Some l \<Rightarrow> l) xs =
      take (case limit args of None \<Rightarrow> 20 | Some l \<Rightarrow> nat l) xs" for xs :: "server list"
    using assms by (cases "limit args") (simp_all add: slice0_take)
  show ?thesis
    by (cases "query args"; cases "categoryArg args")
       (auto simp: searchServers_def searchSpec_def given_def truthy_def lim matchesQuery_spec
          conj_commute intro!: arg_cong [where f = "take _"] filter_cong)
qed

lemma scenario_cache_hit:
  "getServersData 2000 noDraw unavailable staleCache =
     (Inr (scenarioSnapshot noDraw), staleCache)"
  by (simp add: getServersData_def staleCache_def CACHE_DURATION_def)

text \<open>
  C6, as the specification states it, fails for a negative limit: \<open>slice(0, limit)\<close>
  counts a negative end from the end of the array, so with the limit -1 and no query and
  no category the search on the snapshot of three entries returns the first two of them,
  where the first \<open>limit\<close> entries are none.
\<close>

theorem negative_limit_drops_from_end:
  "fst (registry_search_servers 2000 noDraw unavailable (noArguments\<lparr>limit := Some (- 1)\<rparr>)
     staleCache) =
     \<lparr> content = SearchResults None None [filesystemReference noDraw, slackBot noDraw],
       isError = False \<rparr> \<and>
   searchServers (noArguments\<lparr>limit := Some (- 1)\<rparr>) (scenarioSnapshot noDraw) =
     [filesystemReference noDraw, slackBot noDraw] \<and>
   searchSpec None None (nat (- 1)) (scenarioSnapshot noDraw) = [] \<and>
   searchServers (noArguments\<lparr>limit := Some (- 1)\<rparr>) (scenarioSnapshot noDraw) \<noteq>
     searchSpec None None (nat (- 1)) (scenarioSnapshot noDraw)"
  by (simp add: registry_search_servers_def scenario_cache_hit searchServers_def searchSpec_def
      noArguments_def given_def truthy_def slice0_def scenarioSnapshot_def)

text \<open>
  C6, amended. For a limit that is absent or not negative, and a snapshot that
  \<open>getServersData\<close> delivers, the search handler answers, with no error, with the entries
  of the snapshot that contain the query in the name, the description or a tag and that
  have the category, both whatever the case and both only when given, in the order of the
  snapshot, cut to the first \<open>limit\<close> entries, 20 when the limit is absent. With no query
  and no category these are the first \<open>limit\<close> entries of the snapshot.
\<close>

theorem search_filters_then_truncates:
  assumes "case limit args of None \<Rightarrow> True | Some l \<Rightarrow> 0 \<le> l"
    and "getServersData now random up st = (Inr snapshot, st')"
  shows "registry_search_servers now random up args st =
           (\<lparr> content = SearchResults (given (query args)) (given (categoryArg args))
                          (searchSpec (given (query args)) (given (categoryArg args))
                            (case limit args of None \<Rightarrow> 20 | Some l \<Rightarrow> nat l) snapshot),
               isError = False \<rparr>, st') \<and>
         callTool now random up ''registry_search_servers'' args st =
           registry_search_servers now random up args st \<and>
         searchServers args snapshot =
           searchSpec (given (query args)) (given (categoryArg args))
             (case limit args of None \<Rightarrow> 20 | Some l \<Rightarrow> nat l) snapshot \<and>
         (given (query args) = None \<and> given (categoryArg args) = None \<longrightarrow>
            registry_search_servers now random up args st =
              (\<lparr> content = SearchResults None None
                             (take (case limit args of None \<Rightarrow> 20 | Some l \<Rightarrow> nat l) snapshot),
                  isError = False \<rparr>, st'))"
proof -
  note spec = searchServers_spec [OF assms(1), of snapshot]
  from assms(2) spec have handler: "registry_search_servers now random up args st =
      (\<lparr> content = SearchResults (given (query args)) (given (categoryArg args))
                     (searchSpec (given (query args)) (given (categoryArg args))
                       (case limit args of None \<Rightarrow> 20 | Some l \<Rightarrow> nat l) snapshot),
          isError = False \<rparr>, st')"
    by (simp add: registry_search_servers_def)
  have tool: "callTool now random up ''registry_search_servers'' args st =
      registry_search_servers now random up args st"
    by (simp add: callTool_def)
  have "searchSpec None None n snapshot = take n snapshot" for n
    by (simp add: searchSpec_def)
  with handler have plain: "given (query args) = None \<and> given (categoryArg args) = None \<longrightarrow>
      registry_search_servers now random up args st =
        (\<lparr> content = SearchResults None None
                       (take (case limit args of None \<Rightarrow> 20 | Some l \<Rightarrow> nat l) snapshot),
            isError = False \<rparr>, st')"
    by simp
  from handler tool spec plain show ?thesis by (intro conjI)
qed

text \<open>
  C10. With the limit 0 the search returns no entry; the default 20 stands in for an
  absent limit only.
\<close>

theorem zero_limit_is_not_defaulted:
  "(limit args = Some 0 \<longrightarrow> searchServers args snapshot = []) \<and>
   (limit args = None \<longrightarrow>
      searchServers args snapshot = searchServers (args\<lparr>limit := Some 20\<rparr>) snapshot) \<and>
   (limit args = Some 0 \<and> getServersData now random up st = (Inr snapshot, st') \<longrightarrow>
      fst (registry_search_servers now random up args st) =
        \<lparr> content = SearchResults (given (query args)) (given (categoryArg args)) [],
          isError = False \<rparr>)"
  by (auto simp: searchServers_def slice0_def registry_search_servers_def Let_def
      split: option.splits)

theorem search_filters_then_truncates_witness:
  "registry_search_servers 2000 noDraw unavailable
     \<lparr> query = Some ''FILE'', categoryArg = Some ''Community'', limit = Some 5,
       serverId = None \<rparr> staleCache =
     (\<lparr> content = SearchResults (Some ''FILE'') (Some ''Community'') [filesystemFallback noDraw],
         isError = False \<rparr>, staleCache) \<and>
   registry_search_servers 2000 noDraw unavailable
     \<lparr> query = None, categoryArg = None, limit = Some 2, serverId = None \<rparr> staleCache =
     (\<lparr> content = SearchResults None None [filesystemReference noDraw, slackBot noDraw],
         isError = False \<rparr>, staleCache)"
proof -
  let ?a = "\<lparr> query = Some ''FILE'', categoryArg = Some ''Community'', limit = Some 5,
             serverId = None \<rparr>"
  let ?b = "\<lparr> query = None, categoryArg = None, limit = Some 2, serverId = None \<rparr>"
  have la: "case limit ?a of None \<Rightarrow> True | Some l \<Rightarrow> 0 \<le> l" by simp
  have lb: "case limit ?b of None \<Rightarrow> True | Some l \<Rightarrow> 0 \<le> l" by simp
  have spec: "searchSpec (Some ''FILE'') (Some ''Community'') 5 (scenarioSnapshot noDraw) =
      [filesystemFallback noDraw]"
    by code_simp
  have ga: "given (query ?a) = Some ''FILE''" "given (categoryArg ?a) = Some ''Community''"
    "(case limit ?a of None \<Rightarrow> 20 | Some l \<Rightarrow> nat l) = 5"
    by (simp_all add: given_def truthy_def)
  have gb: "given (query ?b) = None \<and> given (categoryArg ?b) = None"
    by (simp add: given_def truthy_def)
  have nb: "(case limit ?b of None \<Rightarrow> 20 | Some l \<Rightarrow> nat l) = 2" by simp
  from search_filters_then_truncates [OF la scenario_cache_hit]
  have "registry_search_servers 2000 noDraw unavailable ?a staleCache =
      (\<lparr> content = SearchResults (given (query ?a)) (given (categoryArg ?a))
                     (searchSpec (given (query ?a)) (given (categoryArg ?a))
                       (case limit ?a of None \<Rightarrow> 20 | Some l \<Rightarrow> nat l)
                       (scenarioSnapshot noDraw)),
          isError = False \<rparr>, staleCache)"
    by (rule conjunct1)
  then have a: "registry_search_servers 2000 noDraw unavailable ?a staleCache =
      (\<lparr> content = SearchResults (Some ''FILE'') (Some ''Community'')
                     [filesystemFallback noDraw],
          isError = False \<rparr>, staleCache)"
    by (simp only: ga spec)
  from search_filters_then_truncates [OF lb scenario_cache_hit] gb
  have "registry_search_servers 2000 noDraw unavailable ?b staleCache =
      (\<lparr> content = SearchResults None None
                     (take (case limit ?b of None \<Rightarrow> 20 | Some l \<Rightarrow> nat l)
                       (scenarioSnapshot noDraw)),
          isError = False \<rparr>, staleCache)"
    by blast
  then have b: "registry_search_servers 2000 noDraw unavailable ?b staleCache =
      (\<lparr> content = SearchResults None None [filesystemReference noDraw, slackBot noDraw],
          isError = False \<rparr>, staleCache)"
    by (simp only: nb) (simp add: scenarioSnapshot_def)
  from a b show ?thesis by (rule conjI)
qed

theorem zero_limit_is_not_defaulted_witness:
  "searchServers (noArguments\<lparr>limit := Some 0\<rparr>) (scenarioSnapshot noDraw) = [] \<and>
   searchServers noArguments (scenarioSnapshot noDraw) =
     searchServers (noArguments\<lparr>limit := Some 20\<rparr>) (scenarioSnapshot noDraw) \<and>
   searchServers (noArguments\<lparr>limit := Some 20\<rparr>) (scenarioSnapshot noDraw) \<noteq> [] \<and>
   fst (registry_search_servers 2000 noDraw unavailable (noArguments\<lparr>limit := Some 0\<rparr>)
     staleCache) = \<lparr> content = SearchResults None None [], isError = False \<rparr>"
proof -
  have z: "limit (noArguments\<lparr>limit := Some 0\<rparr>) = Some 0" by simp
  have n: "limit noArguments = None" by (simp add: noArguments_def)
  have g: "getServersData 2000 noDraw unavailable staleCache =
      (Inr (scenarioSnapshot noDraw), staleCache)"
    by (simp add: getServersData_def staleCache_def CACHE_DURATION_def)
  have t: "searchServers (noArguments\<lparr>limit := Some 20\<rparr>) (scenarioSnapshot noDraw) \<noteq> []"
    by (simp add: searchServers_def noArguments_def given_def truthy_def slice0_def
        scenarioSnapshot_def)
  from zero_limit_is_not_defaulted
    [of "noArguments\<lparr>limit := Some 0\<rparr>" "scenarioSnapshot noDraw" 2000 noDraw unavailable
      staleCache staleCache] z g
  have 1: "searchServers (noArguments\<lparr>limit := Some 0\<rparr>) (scenarioSnapshot noDraw) = []"
    and 3: "fst (registry_search_servers 2000 noDraw unavailable
      (noArguments\<lparr>limit := Some 0\<rparr>) staleCache) =
      \<lparr> content = SearchResults None None [], isError = False \<rparr>"
    by (simp_all add: given_def truthy_def noArguments_def)
  from zero_limit_is_not_defaulted [of noArguments "scenarioSnapshot noDraw"] n
  have 2: "searchServers noArguments (scenarioSnapshot noDraw) =
      searchServers (noArguments\<lparr>limit := Some 20\<rparr>) (scenarioSnapshot noDraw)"
    by simp
  from 1 2 3 t show ?thesis by simp
qed

section \<open>Details of one server\<close>

text \<open>
  C7. For a server id that is given and a snapshot at hand: when some entry has the id or
  the name equal to the server id, or to \<open>mcp-\<close> followed by the server id, the response
  is the detail of such an entry and is no error; when no entry has, the response is the
  text that the server was not found, and is no error either.
\<close>

theorem details_lookup:
  assumes "serverId args = Some sid" and "sid \<noteq> []"
    and "getServersData now random up st = (Inr snapshot, st')"
  shows "((\<forall>s \<in> set snapshot. id' s \<noteq> sid \<and> name s \<noteq> sid \<and>
             id' s \<noteq> ''mcp-'' @ sid \<and> name s \<noteq> ''mcp-'' @ sid) \<longrightarrow>
           fst (registry_get_server_details now random up args st) =
             \<lparr> content = ServerNotFound sid, isError = False \<rparr>) \<and>
         ((\<exists>s \<in> set snapshot. id' s = sid \<or> name s = sid \<or>
             id' s = ''mcp-'' @ sid \<or> name s = ''mcp-'' @ sid) \<longrightarrow>
           (\<exists>s \<in> set snapshot.
              (id' s = sid \<or> name s = sid \<or> id' s = ''mcp-'' @ sid \<or> name s = ''mcp-'' @ sid) \<and>
              fst (registry_get_server_details now random up args st) =
                \<lparr> content = ServerDetails s, isError = False \<rparr>))"
  using assms
  by (auto simp: registry_get_server_details_def given_def truthy_def findServer_def
      find_None_iff split: option.splits dest: find_Some_iff [THEN iffD1])

theorem details_lookup_witness:
  "fst (registry_get_server_details 2000 noDraw unavailable
     (noArguments\<lparr>serverId := Some ''nonexistent-xyz''\<rparr>) staleCache) =
     \<lparr> content = ServerNotFound ''nonexistent-xyz'', isError = False \<rparr> \<and>
   (\<exists>s \<in> set (scenarioSnapshot noDraw).
      (id' s = ''filesystem'' \<or> name s = ''filesystem'' \<or>
       id' s = ''mcp-filesystem'' \<or> name s = ''mcp-filesystem'') \<and>
      fst (registry_get_server_details 2000 noDraw unavailable
        (noArguments\<lparr>serverId := Some ''filesystem''\<rparr>) staleCache) =
        \<lparr> content = ServerDetails s, isError = False \<rparr>) \<and>
   fst (registry_get_server_details 2000 noDraw unavailable
     (noArguments\<lparr>serverId := Some ''filesystem''\<rparr>) staleCache) =
     \<lparr> content = ServerDetails (filesystemReference noDraw), isError = False \<rparr>"
proof -
  have g: "getServersData 2000 noDraw unavailable staleCache =
      (Inr (scenarioSnapshot noDraw), staleCache)"
    by (simp add: getServersData_def staleCache_def CACHE_DURATION_def)
  have absent: "\<forall>s \<in> set (scenarioSnapshot noDraw).
      id' s \<noteq> ''nonexistent-xyz'' \<and> name s \<noteq> ''nonexistent-xyz'' \<and>
      id' s \<noteq> ''mcp-'' @ ''nonexistent-xyz'' \<and> name s \<noteq> ''mcp-'' @ ''nonexistent-xyz''"
    by (simp add: scenarioSnapshot_def filesystemReference_def slackBot_def
        filesystemFallback_def)
  have present: "\<exists>s \<in> set (scenarioSnapshot noDraw).
      id' s = ''filesystem'' \<or> name s = ''filesystem'' \<or>
      id' s = ''mcp-'' @ ''filesystem'' \<or> name s = ''mcp-'' @ ''filesystem''"
    by (simp add: scenarioSnapshot_def filesystemReference_def)
  from details_lookup
    [of "noArguments\<lparr>serverId := Some ''nonexistent-xyz''\<rparr>" "''nonexistent-xyz''" 2000 noDraw
      unavailable staleCache "scenarioSnapshot noDraw" staleCache] g absent
  have 1: "fst (registry_get_server_details 2000 noDraw unavailable
      (noArguments\<lparr>serverId := Some ''nonexistent-xyz''\<rparr>) staleCache) =
      \<lparr> content = ServerNotFound ''nonexistent-xyz'', isError = False \<rparr>"
    by simp
  from details_lookup
    [of "noArguments\<lparr>serverId := Some ''filesystem''\<rparr>" "''filesystem''" 2000 noDraw
      unavailable staleCache "scenarioSnapshot noDraw" staleCache] g present
  have 2: "\<exists>s \<in> set (scenarioSnapshot noDraw).
      (id' s = ''filesystem'' \<or> name s = ''filesystem'' \<or>
       id' s = ''mcp-filesystem'' \<or> name s = ''mcp-filesystem'') \<and>
      fst (registry_get_server_details 2000 noDraw unavailable
        (noArguments\<lparr>serverId := Some ''filesystem''\<rparr>) staleCache) =
        \<lparr> content = ServerDetails s, isError = False \<rparr>"
    by simp
  have 3: "fst (registry_get_server_details 2000 noDraw unavailable
      (noArguments\<lparr>serverId := Some ''filesystem''\<rparr>) staleCache) =
      \<lparr> content = ServerDetails (filesystemReference noDraw), isError = False \<rparr>"
    by (simp add: registry_get_server_details_def g given_def truthy_def findServer_def
        scenarioSnapshot_def filesystemReference_def)
  from 1 2 3 show ?thesis by blast
qed

section \<open>Categories\<close>

lemma increment_keys: "map fst (increment cat rows) = map fst rows"
  by (induction rows) auto

lemma increment_fst: "map (f \<circ> fst) (increment cat rows) = map (f \<circ> fst) rows"
  by (induction rows) auto

lemma increment_described:
  "map (described \<circ> snd) (increment cat rows) = map (described \<circ> snd) rows"
  by (induction rows) auto

lemma increment_total:
  "cat \<in> set (map fst rows) \<Longrightarrow> countSum (increment cat rows) = countSum rows + 1"
proof (induction rows)
  case (Cons row rows)
  obtain k info where row: "row = (k, info)" by (cases row)
  show ?case
  proof (cases "k = cat")
    case True
    with row show ?thesis by (simp add: countSum_def)
  next
    case False
    with Cons.prems row have "cat \<in> set (map fst rows)" by auto
    from Cons.IH [OF this] False row show ?thesis by (simp add: countSum_def)
  qed
qed simp

text \<open>
  The loop of ListCategories on any list of servers whose categories are keys of their
  own, from any rows collected so far.
\<close>

lemma countCategories_rows:
  assumes "\<forall>s \<in> set servers. plain s"
    and "distinct (map fst rows)"
    and "map (described \<circ> snd) rows = map (getCategoryDescription \<circ> fst) rows"
  shows "countSum (countCategories servers rows) = countSum rows + length servers \<and>
         distinct (map fst (countCategories servers rows)) \<and>
         set (map fst (countCategories servers rows)) =
           set (map fst rows) \<union> category ` set servers \<and>
         map (described \<circ> snd) (countCategories servers rows) =
           map (getCategoryDescription \<circ> fst) (countCategories servers rows)"
  using assms
proof (induction servers arbitrary: rows)
  case Nil
  then show ?case by simp
next
  case (Cons s servers)
  let ?cat = "category s"
  from Cons.prems(1) have p: "?cat \<noteq> []" "?cat \<notin> set objectPrototypeKeys"
    and rest: "\<forall>s \<in> set servers. plain s"
    by (simp_all add: plain_def)
  show ?case
  proof (cases "map_of rows ?cat = None")
    case True
    let ?row = "(?cat, \<lparr> count = 0, described = getCategoryDescription ?cat \<rparr>)"
    let ?rows = "increment ?cat (rows @ [?row])"
    from True have fresh: "?cat \<notin> set (map fst rows)" by (simp add: map_of_eq_None_iff)
    have keys: "map fst ?rows = map fst rows @ [?cat]" by (simp add: increment_keys)
    have d: "distinct (map fst ?rows)" using fresh Cons.prems(2) by (simp add: keys)
    have t: "countSum ?rows = countSum rows + 1"
      using increment_total [of ?cat "rows @ [?row]"] by (simp add: countSum_def)
    have i: "map (described \<circ> snd) ?rows = map (getCategoryDescription \<circ> fst) ?rows"
      using Cons.prems(3) by (simp add: increment_described increment_fst)
    from Cons.IH [OF rest d i] True p t keys show ?thesis by (auto simp: Let_def)
  next
    case False
    let ?rows = "increment ?cat rows"
    from False have old: "?cat \<in> set (map fst rows)" by (simp add: map_of_eq_None_iff)
    have keys: "map fst ?rows = map fst rows" by (simp add: increment_keys)
    have d: "distinct (map fst ?rows)" using Cons.prems(2) by (simp add: keys)
    have t: "countSum ?rows = countSum rows + 1" using old by (rule increment_total)
    have i: "map (described \<circ> snd) ?rows = map (getCategoryDescription \<circ> fst) ?rows"
      using Cons.prems(3) by (simp add: increment_described increment_fst)
    from Cons.IH [OF rest d i] False p t keys old show ?thesis by (auto simp: Let_def)
  qed
qed

lemma referenceLines_category:
  "s \<in> set (referenceLines random lines servers) \<Longrightarrow>
   s \<in> set servers \<or> category s = ''official''"
proof (induction lines arbitrary: servers)
  case (Cons line lines)
  show ?case
  proof (cases "lineMatch line")
    case None
    with Cons show ?thesis by simp
  next
    case (Some m)
    obtain m1 m2 where m: "m = (m1, m2)" by (cases m)
    let ?e = "referenceEntry random (length servers) m1 m2"
    have "category ?e = ''official''" by (simp add: referenceEntry_def)
    moreover from Cons.prems Some m
    have "s \<in> set (referenceLines random lines (servers @ [?e]))" by simp
    ultimately show ?thesis using Cons.IH [of "servers @ [?e]"] by auto
  qed
qed simp

lemma communityLines_category:
  "s \<in> set (communityLines random lines servers) \<Longrightarrow>
   s \<in> set servers \<or> category s = ''community''"
proof (induction lines arbitrary: servers)
  case (Cons line lines)
  show ?case
  proof (cases "lineMatch line")
    case None
    with Cons show ?thesis by simp
  next
    case (Some m)
    obtain m1 m2 where m: "m = (m1, m2)" by (cases m)
    let ?e = "communityEntry random (length servers) m1 m2"
    have "category ?e = ''community''" by (simp add: communityEntry_def)
    moreover from Cons.prems Some m
    have "s \<in> set (communityLines random lines (servers @ [?e]))" by simp
    ultimately show ?thesis using Cons.IH [of "servers @ [?e]"] by auto
  qed
qed simp

lemma fallbackEntry_category:
  "category (fallbackEntry random k sid nm desc) = ''official'' \<or>
   category (fallbackEntry random k sid nm desc) = ''community''"
  by (simp add: fallbackEntry_def)

lemma fallbackLoop_category:
  "s \<in> set (fallbackLoop random ms servers) \<Longrightarrow>
   s \<in> set servers \<or> category s = ''official'' \<or> category s = ''community''"
proof (induction ms arbitrary: servers)
  case (Cons m ms)
  obtain nm desc where m: "m = (nm, desc)" by (cases m)
  let ?e = "fallbackEntry random (length servers) (serverIdOf nm) nm desc"
  from Cons.prems m have "s \<in> set (fallbackLoop random ms servers) \<or>
      s \<in> set (fallbackLoop random ms (servers @ [?e]))"
    by (auto split: if_splits)
  with Cons.IH [of servers] Cons.IH [of "servers @ [?e]"]
    fallbackEntry_category [of random "length servers" "serverIdOf nm" nm desc]
  show ?case by auto
qed simp

text \<open>Every extracted entry is of category \<open>official\<close> or \<open>community\<close>.\<close>

lemma parse_category:
  assumes "s \<in> set (parseREADMEContent random readme)"
  shows "category s = ''official'' \<or> category s = ''community''"
proof -
  from assms have "s \<in> set (fallbackPass random readme
      (communityPass random readme (referencePass random readme [])))"
    by (auto simp: parseREADMEContent_def dest: in_set_takeD)
  then have "s \<in> set (communityPass random readme (referencePass random readme [])) \<or>
      category s = ''official'' \<or> category s = ''community''"
    by (auto simp: fallbackPass_def dest: fallbackLoop_category)
  moreover have "s \<in> set (communityPass random readme servers) \<Longrightarrow>
      s \<in> set servers \<or> category s = ''community''" for servers
    by (auto simp: communityPass_def dest: communityLines_category split: option.splits)
  moreover have "s \<in> set (referencePass random readme []) \<Longrightarrow> category s = ''official''"
    by (auto simp: referencePass_def dest: referenceLines_category split: option.splits)
  ultimately show ?thesis by blast
qed

lemma parse_plain: "s \<in> set (parseREADMEContent random readme) \<Longrightarrow> plain s"
  by (drule parse_category) (auto simp: plain_def objectPrototypeKeys_def)

text \<open>
  The rows of ListCategories on a snapshot that extraction produces: the counts sum to
  the number of entries, no category has two rows, the categories of the rows are those
  of the entries, and each description is an entry of the table.
\<close>

lemma extracted_rows:
  "countSum (countCategories (parseREADMEContent random readme) []) =
     length (parseREADMEContent random readme) \<and>
   distinct (map fst (countCategories (parseREADMEContent random readme) [])) \<and>
   set (map fst (countCategories (parseREADMEContent random readme) [])) =
     category ` set (parseREADMEContent random readme) \<and>
   (\<forall>row \<in> set (countCategories (parseREADMEContent random readme) []).
      described (snd row) = getCategoryDescription (fst row) \<and>
      (\<exists>d. map_of descriptions (fst row) = Some d \<and> described (snd row) = Text d))"
proof -
  let ?snap = "parseREADMEContent random readme"
  let ?rows = "countCategories ?snap []"
  have rows: "countSum ?rows = length ?snap \<and> distinct (map fst ?rows) \<and>
      set (map fst ?rows) = category ` set ?snap \<and>
      map (described \<circ> snd) ?rows = map (getCategoryDescription \<circ> fst) ?rows"
    using countCategories_rows [of ?snap "[]"] by (simp add: parse_plain countSum_def)
  have each: "described (snd row) = getCategoryDescription (fst row) \<and>
      (\<exists>d. map_of descriptions (fst row) = Some d \<and> described (snd row) = Text d)"
    if row: "row \<in> set ?rows" for row
  proof -
    from rows row have d: "described (snd row) = getCategoryDescription (fst row)"
      by (auto simp: map_eq_conv)
    from rows row have "fst row \<in> category ` set ?snap" by force
    then have "fst row = ''official'' \<or> fst row = ''community''"
      by (auto dest: parse_category)
    then have "\<exists>d. map_of descriptions (fst row) = Some d \<and>
        getCategoryDescription (fst row) = Text d"
      by (auto simp: getCategoryDescription_def descriptions_def)
    with d show ?thesis by simp
  qed
  from rows each show ?thesis by blast
qed

text \<open>
  Every snapshot that the cache holds in a reachable state, and every snapshot that
  \<open>getServersData\<close> returns there, is a result of \<open>parseREADMEContent\<close>.
\<close>

lemma getServersData_extracted:
  assumes "\<forall>snap. cachedServers st = Some snap \<longrightarrow> (\<exists>r d. snap = parseREADMEContent r d)"
  shows "(\<forall>snap. cachedServers (snd (getServersData now random up st)) = Some snap \<longrightarrow>
            (\<exists>r d. snap = parseREADMEContent r d)) \<and>
         (\<forall>snap. fst (getServersData now random up st) = Inr snap \<longrightarrow>
            (\<exists>r d. snap = parseREADMEContent r d))"
proof (cases "if now - lastFetchTime st < CACHE_DURATION then cachedServers st else None")
  case (Some cached)
  then have c: "cachedServers st = Some cached" by (simp split: if_splits)
  from Some have "getServersData now random up st = (Inr cached, st)"
    by (simp add: getServersData_def)
  with assms c show ?thesis by simp
next
  case None
  show ?thesis
  proof (cases up)
    case (Failure message)
    with None assms show ?thesis
      by (simp add: getServersData_def fetchRealMCPServers_def)
  next
    case (Readme d)
    with None assms show ?thesis
      by (auto simp: getServersData_def fetchRealMCPServers_def)
  qed
qed

lemma reachable_cache_extracted:
  "reachable st \<Longrightarrow>
   \<forall>snap. cachedServers st = Some snap \<longrightarrow> (\<exists>r d. snap = parseREADMEContent r d)"
proof (induction rule: reachable.induct)
  case start
  show ?case by (simp add: initialCache_def)
next
  case (call st now random up toolName args)
  have cleared: "\<forall>snap. cachedServers (st\<lparr>cachedServers := None, lastFetchTime := 0\<rparr>) =
      Some snap \<longrightarrow> (\<exists>r d. snap = parseREADMEContent r d)"
    by simp
  from callTool_state [of now random up toolName args st] call.IH
    getServersData_extracted [OF call.IH, of now random up]
    getServersData_extracted [OF cleared, of now random up]
  show ?case by auto
qed

lemma reachable_staleCache: "reachable staleCache"
proof -
  have "snd (callTool 1000 noDraw (Readme scenarioReadme) ''registry_list_categories''
      noArguments initialCache) = staleCache"
    by (simp add: callTool_def registry_list_categories_def scenario_first_fetch)
  with reachable.call [OF reachable.start,
      of 1000 noDraw "Readme scenarioReadme" "''registry_list_categories''" noArguments]
  show ?thesis by simp
qed

text \<open>
  C8. In every state that the server can reach, when \<open>getServersData\<close> delivers a
  snapshot, ListCategories answers, with no error, with the rows that its loop builds
  from that snapshot: their counts sum to the number of entries of the snapshot, no
  category has two rows, the categories of the rows are those of the entries, and the
  description of each row is the one that \<open>getCategoryDescription\<close> gives for its
  category, an entry of the table. A category that the table does not have, and that
  names no member of \<open>Object.prototype\<close>, gets the description
  \<open>Various MCP server functionality\<close>.
\<close>

theorem categories_partition_snapshot:
  assumes "reachable st"
    and "getServersData now random up st = (Inr snapshot, st')"
  shows "registry_list_categories now random up st =
           (\<lparr> content = Categories (countCategories snapshot []), isError = False \<rparr>, st') \<and>
         callTool now random up ''registry_list_categories'' args st =
           registry_list_categories now random up st \<and>
         countSum (countCategories snapshot []) = length snapshot \<and>
         distinct (map fst (countCategories snapshot [])) \<and>
         set (map fst (countCategories snapshot [])) = category ` set snapshot \<and>
         (\<forall>row \<in> set (countCategories snapshot []).
            described (snd row) = getCategoryDescription (fst row) \<and>
            (\<exists>d. map_of descriptions (fst row) = Some d \<and> described (snd row) = Text d)) \<and>
         (cat \<notin> set (map fst descriptions) \<and> cat \<notin> set objectPrototypeKeys \<longrightarrow>
            getCategoryDescription cat = Text ''Various MCP server functionality'')"
proof -
  from assms(2) have handler: "registry_list_categories now random up st =
      (\<lparr> content = Categories (countCategories snapshot []), isError = False \<rparr>, st')"
    by (simp add: registry_list_categories_def)
  have tool: "callTool now random up ''registry_list_categories'' args st =
      registry_list_categories now random up st"
    by (simp add: callTool_def)
  from assms(2) have "fst (getServersData now random up st) = Inr snapshot" by simp
  with getServersData_extracted [OF reachable_cache_extracted [OF assms(1)], of now random up]
  obtain r d where snap: "snapshot = parseREADMEContent r d" by blast
  note rows = extracted_rows [of r d, folded snap]
  have fallback: "cat \<notin> set (map fst descriptions) \<and> cat \<notin> set objectPrototypeKeys \<longrightarrow>
      getCategoryDescription cat = Text ''Various MCP server functionality''"
    by (auto simp: getCategoryDescription_def map_of_eq_None_iff [symmetric]
        simp del: map_of_eq_None_iff split: option.splits)
  from handler tool rows fallback show ?thesis by blast
qed

theorem categories_partition_snapshot_witness:
  "reachable staleCache \<and>
   registry_list_categories 2000 noDraw unavailable staleCache =
     (\<lparr> content = Categories
         [(''official'', \<lparr> count = 1,
             described = Text ''Official MCP servers maintained by Anthropic'' \<rparr>),
          (''community'', \<lparr> count = 2,
             described = Text ''Community-contributed MCP servers'' \<rparr>)],
         isError = False \<rparr>, staleCache) \<and>
   countSum (countCategories (scenarioSnapshot noDraw) []) = 3 \<and>
   getCategoryDescription ''search'' = Text ''Various MCP server functionality''"
proof -
  have rows: "countCategories (scenarioSnapshot noDraw) [] =
     [(''official'', \<lparr> count = 1,
         described = Text ''Official MCP servers maintained by Anthropic'' \<rparr>),
      (''community'', \<lparr> count = 2, described = Text ''Community-contributed MCP servers'' \<rparr>)]"
    by code_simp
  have len: "length (scenarioSnapshot noDraw) = 3" by (simp add: scenarioSnapshot_def)
  have unknown: "''search'' \<notin> set (map fst descriptions) \<and> ''search'' \<notin> set objectPrototypeKeys"
    by (simp add: descriptions_def objectPrototypeKeys_def)
  note t = categories_partition_snapshot
    [OF reachable_staleCache scenario_cache_hit, of noArguments "''search''"]
  from t have "registry_list_categories 2000 noDraw unavailable staleCache =
      (\<lparr> content = Categories (countCategories (scenarioSnapshot noDraw) []),
          isError = False \<rparr>, staleCache)"
    by (rule conjunct1)
  then have 1: "registry_list_categories 2000 noDraw unavailable staleCache =
     (\<lparr> content = Categories
         [(''official'', \<lparr> count = 1,
             described = Text ''Official MCP servers maintained by Anthropic'' \<rparr>),
          (''community'', \<lparr> count = 2,
             described = Text ''Community-contributed MCP servers'' \<rparr>)],
         isError = False \<rparr>, staleCache)"
    by (simp only: rows)
  from t have "countSum (countCategories (scenarioSnapshot noDraw) []) =
      length (scenarioSnapshot noDraw)"
    by blast
  then have 2: "countSum (countCategories (scenarioSnapshot noDraw) []) = 3"
    by (simp only: len)
  from t unknown
  have 3: "getCategoryDescription ''search'' = Text ''Various MCP server functionality''"
    by blast
  from reachable_staleCache 1 2 3 show ?thesis by (intro conjI)
qed

section \<open>Entries of the reference pass\<close>










end
